theory Spec2Isabelle
  imports Complex_Main "HOL-Library.Sublist" "HOL-Library.Word"
begin

section \<open>Python strings\<close>

text \<open>
  A Python \<^verbatim>\<open>str\<close> is a sequence of Unicode code points, and every index, length and
  slice of \<^verbatim>\<open>app.py\<close> counts code points. A code point is a natural number here and
  a string is a list of them. \<open>cp\<close> reads an ASCII literal as such a string.
\<close>

type_synonym codepoint = nat
type_synonym pystr = "codepoint list"

definition cp :: "string \<Rightarrow> pystr" where
  "cp s = map of_char s"

text \<open>
  \<^verbatim>\<open>str.isspace\<close> for one code point: the white space of \<^verbatim>\<open>str.strip()\<close> called with
  no argument.
\<close>

definition is_space :: "codepoint \<Rightarrow> bool" where
  "is_space c \<longleftrightarrow>
     (9 \<le> c \<and> c \<le> 13) \<or> (28 \<le> c \<and> c \<le> 32) \<or> c = 133 \<or> c = 160 \<or> c = 5760 \<or>
     (8192 \<le> c \<and> c \<le> 8202) \<or> c = 8232 \<or> c = 8233 \<or> c = 8239 \<or> c = 8287 \<or>
     c = 12288"

text \<open>The line boundaries of \<^verbatim>\<open>str.splitlines()\<close>; CR LF together is one boundary.\<close>

definition is_linebreak :: "codepoint \<Rightarrow> bool" where
  "is_linebreak c \<longleftrightarrow>
     (10 \<le> c \<and> c \<le> 13) \<or> (28 \<le> c \<and> c \<le> 30) \<or> c = 133 \<or> c = 8232 \<or> c = 8233"

definition py_strip :: "pystr \<Rightarrow> pystr" where
  "py_strip s = rev (dropWhile is_space (rev (dropWhile is_space s)))"

text \<open>
  \<^verbatim>\<open>str.upper()\<close> replaces every code point by its full uppercase mapping, which may be
  longer than one code point (\<^verbatim>\<open>'\xdf'.upper() == 'SS'\<close>). The mapping is a table of the
  interpreter, so it is the parameter \<open>U\<close> of everything that changes case.
\<close>

definition py_upper :: "(codepoint \<Rightarrow> pystr) \<Rightarrow> pystr \<Rightarrow> pystr" where
  "py_upper U s = concat (map U s)"

text \<open>
  The table on the code points below 256, as \<^verbatim>\<open>str.upper\<close> has it there. The texts
  evaluated in this theory stay in that range; above it this instance changes nothing.
\<close>

definition upper_cp :: "codepoint \<Rightarrow> pystr" where
  "upper_cp c =
     (if 97 \<le> c \<and> c \<le> 122 then [c - 32]
      else if c = 181 then [924]
      else if c = 223 then [83, 83]
      else if 224 \<le> c \<and> c \<le> 254 \<and> c \<noteq> 247 then [c - 32]
      else if c = 255 then [376]
      else [c])"

text \<open>\<^verbatim>\<open>sub in s\<close> and \<^verbatim>\<open>s.find(sub)\<close>: the lowest index of an occurrence, or -1.\<close>

fun py_in :: "pystr \<Rightarrow> pystr \<Rightarrow> bool" where
  "py_in sub [] \<longleftrightarrow> sub = []"
| "py_in sub (x # xs) \<longleftrightarrow> prefix sub (x # xs) \<or> py_in sub xs"

fun py_find :: "pystr \<Rightarrow> pystr \<Rightarrow> int" where
  "py_find [] sub = (if sub = [] then 0 else - 1)"
| "py_find (x # xs) sub =
     (if prefix sub (x # xs) then 0
      else (let r = py_find xs sub in if r < 0 then - 1 else r + 1))"

text \<open>
  Slices \<^verbatim>\<open>s[lo:hi]\<close> and \<^verbatim>\<open>s[lo:]\<close> with Python's treatment of every integer: a
  negative index counts from the end, and both ends are clipped to the string.
\<close>

definition py_index :: "pystr \<Rightarrow> int \<Rightarrow> nat" where
  "py_index s i =
     (let n = int (length s)
      in if i < 0 then nat (max 0 (n + i)) else nat (min i n))"

definition py_slice :: "pystr \<Rightarrow> int \<Rightarrow> int \<Rightarrow> pystr" where
  "py_slice s lo hi = take (py_index s hi - py_index s lo) (drop (py_index s lo) s)"

definition py_slice_from :: "pystr \<Rightarrow> int \<Rightarrow> pystr" where
  "py_slice_from s lo = drop (py_index s lo) s"

text \<open>
  \<^verbatim>\<open>str.splitlines()\<close>: \<open>cur\<close> holds the current line, reversed. A boundary closes
  the line, also an empty one; the end of the string closes only a line that has begun.
\<close>

fun splitlines_from :: "pystr \<Rightarrow> pystr \<Rightarrow> pystr list" where
  "splitlines_from cur [] = (if cur = [] then [] else [rev cur])"
| "splitlines_from cur [c] =
     (if is_linebreak c then [rev cur] else [rev (c # cur)])"
| "splitlines_from cur (c # d # cs) =
     (if c = 13 \<and> d = 10 then rev cur # splitlines_from [] cs
      else if is_linebreak c then rev cur # splitlines_from [] (d # cs)
      else splitlines_from (c # cur) (d # cs))"

definition splitlines :: "pystr \<Rightarrow> pystr list" where
  "splitlines s = splitlines_from [] s"

fun py_join :: "pystr \<Rightarrow> pystr list \<Rightarrow> pystr" where
  "py_join sep [] = []"
| "py_join sep [x] = x"
| "py_join sep (x # y # ys) = x @ sep @ py_join sep (y # ys)"

section \<open>Splitting the reply into story and moral\<close>

definition STORY_MARK :: pystr where
  "STORY_MARK = cp ''STORY:''"

definition MORAL_MARK :: pystr where
  "MORAL_MARK = cp ''MORAL:''"

text \<open>
  Lines 104 to 122 of \<^verbatim>\<open>generate_story_and_moral\<close>, from the stripped reply \<open>txt\<close> to
  the pair it returns. The indices are found in the uppercased copy and used on \<open>txt\<close>
  itself, as in the source.
\<close>

definition nonempty_lines :: "pystr \<Rightarrow> pystr list" where
  "nonempty_lines txt = map py_strip (filter (\<lambda>ln. py_strip ln \<noteq> []) (splitlines txt))"

definition split_story_moral :: "(codepoint \<Rightarrow> pystr) \<Rightarrow> pystr \<Rightarrow> pystr \<times> pystr" where
  "split_story_moral U txt =
     (if py_in STORY_MARK (py_upper U txt) \<and> py_in MORAL_MARK (py_upper U txt) then
        (let up = py_upper U txt;
             s_idx = py_find up STORY_MARK;
             m_idx = py_find up MORAL_MARK
         in (py_strip (py_slice txt (s_idx + int (length STORY_MARK)) m_idx),
             py_strip (py_slice_from txt (m_idx + int (length MORAL_MARK)))))
      else
        (let lines = nonempty_lines txt
         in if 2 \<le> length lines then (py_join [10] (butlast lines), last lines)
            else (txt, [])))"

section \<open>The lines of a reply\<close>




section \<open>The completion service\<close>

text \<open>
  One call of \<^verbatim>\<open>client.chat.completions.create\<close>: the request carries what the source
  passes, and the service answers with the reply's content or fails. Every exception of
  the call, and of reading \<^verbatim>\<open>resp.choices[0].message.content\<close>, is the \<open>Inl\<close> branch
  and leaves the function that made the call, which catches nothing.
\<close>

datatype py_error =
    APIError pystr
  | OSError
  | FileExistsError
  | IsADirectoryError
  | UnicodeEncodeError

record request =
  model :: pystr
  system_content :: pystr
  user_content :: pystr
  temperature :: rat
  max_tokens :: nat

type_synonym service = "request \<Rightarrow> py_error + pystr"

text \<open>
  The module's start: \<^verbatim>\<open>client = OpenAI(api_key=api_key) if api_key else None\<close>. A
  missing variable and an empty one both leave the client absent; \<open>connect\<close> is the
  service behind a key.
\<close>

definition init_client :: "pystr option \<Rightarrow> (pystr \<Rightarrow> service) \<Rightarrow> service option" where
  "init_client api_key connect =
     (case api_key of
        None \<Rightarrow> None
      | Some k \<Rightarrow> if k = [] then None else Some (connect k))"

section \<open>analyze\_mood\<close>

definition mood_system :: pystr where
  "mood_system =
     cp ''You are a short-text mood classifier for dreams. '' @
     cp ''Given a user dream text, reply with one short mood label only. '' @
     cp ''Choose from: Scary, Happy, Peaceful, Anxious, Confusing, Exciting, Sad, Surreal, Neutral.''"

definition mood_request :: "pystr \<Rightarrow> request" where
  "mood_request dream_text =
     \<lparr>model = cp ''gpt-4o-mini'', system_content = mood_system, user_content = dream_text,
      temperature = 0, max_tokens = 30\<rparr>"

text \<open>
  The functions return the requests they sent, in order, beside their result: no
  network call is the empty list.
\<close>

definition analyze_mood :: "service option \<Rightarrow> pystr \<Rightarrow> request list \<times> (py_error + pystr)" where
  "analyze_mood client dream_text =
     (case client of
        None \<Rightarrow> ([], Inr (cp ''Unknown (no API key)''))
      | Some call \<Rightarrow>
          (case call (mood_request dream_text) of
             Inl e \<Rightarrow> ([mood_request dream_text], Inl e)
           | Inr content \<Rightarrow> ([mood_request dream_text], Inr (py_strip content))))"

section \<open>generate\_story\_and\_moral\<close>

definition story_system :: pystr where
  "story_system =
     cp ''You are a creative writer who converts people'' @ [39] @
     cp ''s dreams into short fictional stories. '' @
     cp ''Respond in two labeled sections: STORY: <story text> and MORAL: <one-sentence moral>. '' @
     cp ''Keep language simple and vivid. Respect the chosen genre and requested length.''"

text \<open>The dictionary of length hints and its \<^verbatim>\<open>.get(length, "Keep it short.")\<close>.\<close>

definition length_hints :: "(pystr \<times> pystr) list" where
  "length_hints =
     [(cp ''Short'', cp ''Keep it very short (3-5 sentences).''),
      (cp ''Medium'', cp ''Make it medium length (5-8 sentences).''),
      (cp ''Long'', cp ''Make it longer (8-12 sentences).'')]"

definition length_hint :: "pystr \<Rightarrow> pystr" where
  "length_hint length_arg =
     (case map_of length_hints length_arg of
        Some h \<Rightarrow> h
      | None \<Rightarrow> cp ''Keep it short.'')"

definition story_prompt :: "pystr \<Rightarrow> pystr \<Rightarrow> pystr \<Rightarrow> pystr" where
  "story_prompt dream_text genre hint =
     cp ''User dream: '' @ dream_text @ [10] @
     cp ''Genre: '' @ genre @ [10] @
     cp ''Length hint: '' @ hint @ [10] @
     cp ''Write a short creative story inspired by the dream. Then write a one-sentence moral.''"

definition story_request :: "pystr \<Rightarrow> pystr \<Rightarrow> pystr \<Rightarrow> request" where
  "story_request dream_text genre length_arg =
     \<lparr>model = cp ''gpt-4o-mini'', system_content = story_system,
      user_content = story_prompt dream_text genre (length_hint length_arg),
      temperature = 7 / 10, max_tokens = 550\<rparr>"

definition generate_story_and_moral ::
  "(codepoint \<Rightarrow> pystr) \<Rightarrow> service option \<Rightarrow> pystr \<Rightarrow> pystr \<Rightarrow> pystr \<Rightarrow>
   request list \<times> (py_error + pystr \<times> pystr)" where
  "generate_story_and_moral U client dream_text genre length_arg =
     (case client of
        None \<Rightarrow> ([], Inr (cp ''(API key missing)'', []))
      | Some call \<Rightarrow>
          (case call (story_request dream_text genre length_arg) of
             Inl e \<Rightarrow> ([story_request dream_text genre length_arg], Inl e)
           | Inr content \<Rightarrow>
               ([story_request dream_text genre length_arg],
                Inr (split_story_moral U (py_strip content)))))"

section \<open>Saving the story\<close>

text \<open>
  \<^verbatim>\<open>str.encode("utf-8")\<close>: one to four bytes for each code point. A surrogate has no
  encoding and raises; so does a number that is no code point at all, which a Python
  string cannot hold.
\<close>

definition utf8_char :: "codepoint \<Rightarrow> py_error + 8 word list" where
  "utf8_char c =
     (if c < 128 then Inr [of_nat c]
      else if c < 2048 then Inr [of_nat (192 + c div 64), of_nat (128 + c mod 64)]
      else if 55296 \<le> c \<and> c \<le> 57343 then Inl UnicodeEncodeError
      else if c < 65536 then
        Inr [of_nat (224 + c div 4096), of_nat (128 + c div 64 mod 64), of_nat (128 + c mod 64)]
      else if c < 1114112 then
        Inr [of_nat (240 + c div 262144), of_nat (128 + c div 4096 mod 64),
             of_nat (128 + c div 64 mod 64), of_nat (128 + c mod 64)]
      else Inl UnicodeEncodeError)"

fun utf8_encode :: "pystr \<Rightarrow> py_error + 8 word list" where
  "utf8_encode [] = Inr []"
| "utf8_encode (c # cs) =
     (case utf8_char c of
        Inl e \<Rightarrow> Inl e
      | Inr bs \<Rightarrow> (case utf8_encode cs of Inl e \<Rightarrow> Inl e | Inr rest \<Rightarrow> Inr (bs @ rest)))"

text \<open>
  \<^verbatim>\<open>hashlib.sha1(...).hexdigest()\<close>: the digest function belongs to the library and is
  the parameter \<open>sha1\<close>, from the bytes to the 160 bits of the digest; \<open>hexdigest\<close>
  writes them as 40 lowercase hexadecimal digits, the highest first.
\<close>

definition hex_digit :: "nat \<Rightarrow> codepoint" where
  "hex_digit n = (if n < 10 then 48 + n else 87 + n)"

definition hexdigest :: "160 word \<Rightarrow> pystr" where
  "hexdigest w = map (\<lambda>i. hex_digit (unat w div 16 ^ (39 - i) mod 16)) [0..<40]"


text \<open>
  The disk: the directories, the files with the text written to each, and whether the
  operating system refuses every change (no permission, no space).
\<close>

record disk =
  dirs :: "pystr set"
  files :: "pystr \<rightharpoonup> pystr"
  read_only :: bool

text \<open>
  The body of the \<^verbatim>\<open>try\<close> at the end of the submit handler, with the disk it leaves
  behind: \<^verbatim>\<open>os.makedirs("stories", exist_ok=True)\<close>, the name from the hash of the
  dream text, \<^verbatim>\<open>open(fname, "w", encoding="utf-8")\<close>, which empties the file, and the
  write. The result is the name, or the exception the \<^verbatim>\<open>except\<close> clause catches.
\<close>

definition story_file_name :: "(8 word list \<Rightarrow> 160 word) \<Rightarrow> pystr \<Rightarrow> py_error + pystr" where
  "story_file_name sha1 dream_input =
     (case utf8_encode dream_input of
        Inl e \<Rightarrow> Inl e
      | Inr bytes \<Rightarrow>
          Inr (cp ''stories/dream_'' @ py_slice (hexdigest (sha1 bytes)) 0 8 @ cp ''.txt''))"

definition save_story ::
  "(8 word list \<Rightarrow> 160 word) \<Rightarrow> disk \<Rightarrow> pystr \<Rightarrow> pystr \<Rightarrow> disk \<times> (py_error + pystr)" where
  "save_story sha1 d dream_input full_text =
     (if read_only d then (d, Inl OSError)
      else if cp ''stories'' \<in> dom (files d) then (d, Inl FileExistsError)
      else
        (let d1 = d\<lparr>dirs := insert (cp ''stories'') (dirs d)\<rparr>
         in case story_file_name sha1 dream_input of
              Inl e \<Rightarrow> (d1, Inl e)
            | Inr fname \<Rightarrow>
                if fname \<in> dirs d1 then (d1, Inl IsADirectoryError)
                else
                  (case utf8_encode full_text of
                     Inl e \<Rightarrow> (d1\<lparr>files := (files d1)(fname \<mapsto> [])\<rparr>, Inl e)
                   | Inr _ \<Rightarrow> (d1\<lparr>files := (files d1)(fname \<mapsto> full_text)\<rparr>, Inr fname))))"

section \<open>The submit handler\<close>

text \<open>
  What a run of the handler shows, in order: each constructor is one Streamlit call of
  the source. \<open>CouldNotSave e\<close> is the warning
  \<^verbatim>\<open>"Could not save locally: " + str(e)\<close>.
\<close>

datatype ui_event =
    Warning pystr
  | Spinner pystr
  | Subheader pystr
  | Write pystr
  | DownloadButton pystr pystr pystr
  | Info pystr
  | CouldNotSave py_error

record outcome =
  shown :: "ui_event list"
  sent :: "request list"
  disk_after :: disk
  raised :: "py_error option"

definition full_text_of :: "pystr \<Rightarrow> pystr \<Rightarrow> pystr \<Rightarrow> pystr \<Rightarrow> pystr" where
  "full_text_of dream_input mood story moral =
     cp ''Dream:'' @ [10] @ dream_input @ [10, 10] @
     cp ''Mood: '' @ mood @ [10, 10] @
     cp ''Story:'' @ [10] @ story @ [10, 10] @
     cp ''Moral:'' @ [10] @ moral @ [10]"

definition render :: "pystr \<Rightarrow> pystr \<Rightarrow> pystr \<Rightarrow> pystr \<Rightarrow> ui_event list" where
  "render dream_input mood story moral =
     [Spinner (cp ''Analyzing dream and writing story...''),
      Subheader ([128270] @ cp '' Dream Mood''), Write mood,
      Subheader ([128214] @ cp '' Story''), Write story,
      Subheader ([128161] @ cp '' Moral''),
      Write (if moral \<noteq> [] then moral else cp ''(No explicit moral generated.)''),
      DownloadButton (cp ''Download story as .txt'')
        (full_text_of dream_input mood story moral) (cp ''dream_story.txt'')]"

text \<open>
  The block under \<^verbatim>\<open>if submit:\<close>. An exception of a service call leaves the handler:
  it is the outcome's \<open>raised\<close>, after the requests sent so far.
\<close>

definition on_submit ::
  "(codepoint \<Rightarrow> pystr) \<Rightarrow> (8 word list \<Rightarrow> 160 word) \<Rightarrow> service option \<Rightarrow> disk \<Rightarrow>
   pystr \<Rightarrow> pystr \<Rightarrow> pystr \<Rightarrow> outcome" where
  "on_submit U sha1 client d dream_input genre length_arg =
     (if py_strip dream_input = [] then
        \<lparr>shown = [Warning (cp ''Please enter a dream description before clicking Create Story.'')],
         sent = [], disk_after = d, raised = None\<rparr>
      else
        (case analyze_mood client dream_input of
           (calls1, Inl e) \<Rightarrow>
             \<lparr>shown = [Spinner (cp ''Analyzing dream and writing story...'')],
              sent = calls1, disk_after = d, raised = Some e\<rparr>
         | (calls1, Inr mood) \<Rightarrow>
             (case generate_story_and_moral U client dream_input genre length_arg of
                (calls2, Inl e) \<Rightarrow>
                  \<lparr>shown = [Spinner (cp ''Analyzing dream and writing story...'')],
                   sent = calls1 @ calls2, disk_after = d, raised = Some e\<rparr>
              | (calls2, Inr (story, moral)) \<Rightarrow>
                  (case save_story sha1 d dream_input (full_text_of dream_input mood story moral) of
                     (d', Inr fname) \<Rightarrow>
                       \<lparr>shown = render dream_input mood story moral @
                                 [Info (cp ''Saved locally: '' @ fname)],
                        sent = calls1 @ calls2, disk_after = d', raised = None\<rparr>
                   | (d', Inl e) \<Rightarrow>
                       \<lparr>shown = render dream_input mood story moral @ [CouldNotSave e],
                        sent = calls1 @ calls2, disk_after = d', raised = None\<rparr>))))"

section \<open>Searching and slicing\<close>

lemma py_in_iff: "py_in sub s \<longleftrightarrow> (\<exists>ys zs. s = ys @ sub @ zs)"
proof (induction s)
  case Nil
  then show ?case by auto
next
  case (Cons x xs)
  show ?case
  proof
    assume "py_in sub (x # xs)"
    then consider "prefix sub (x # xs)" | "py_in sub xs" by auto
    then show "\<exists>ys zs. x # xs = ys @ sub @ zs"
    proof cases
      case 1
      then obtain zs where "x # xs = sub @ zs" by (auto simp: prefix_def)
      then have "x # xs = [] @ sub @ zs" by simp
      then show ?thesis by blast
    next
      case 2
      with Cons.IH obtain ys zs where "xs = ys @ sub @ zs" by blast
      then have "x # xs = (x # ys) @ sub @ zs" by simp
      then show ?thesis by blast
    qed
  next
    assume "\<exists>ys zs. x # xs = ys @ sub @ zs"
    then obtain ys zs where e: "x # xs = ys @ sub @ zs" by blast
    show "py_in sub (x # xs)"
    proof (cases ys)
      case Nil
      with e have "prefix sub (x # xs)" by (simp add: prefix_def)
      then show ?thesis by simp
    next
      case (Cons y ys')
      with e have "xs = ys' @ sub @ zs" by simp
      with Cons.IH have "py_in sub xs" by blast
      then show ?thesis by simp
    qed
  qed
qed

lemma py_find_ge: "- 1 \<le> py_find s sub"
  by (induction s) (auto simp: Let_def)

lemma py_find_nonneg_iff: "0 \<le> py_find s sub \<longleftrightarrow> py_in sub s"
  by (induction s) (auto simp: Let_def)

lemma py_find_le_length: "py_find s sub \<le> int (length s)"
  by (induction s) (auto simp: Let_def)

lemma py_find_occurs: "py_find s sub = int n \<Longrightarrow> prefix sub (drop n s)"
proof (induction s arbitrary: n)
  case Nil
  then show ?case by (auto split: if_splits)
next
  case (Cons x xs)
  show ?case
  proof (cases "prefix sub (x # xs)")
    case True
    with Cons.prems show ?thesis by simp
  next
    case False
    with Cons.prems have r: "0 \<le> py_find xs sub" "int n = py_find xs sub + 1"
      by (auto simp: Let_def split: if_splits)
    define m where "m = nat (py_find xs sub)"
    with r have m: "n = Suc m" "py_find xs sub = int m"
      by linarith+
    with Cons.IH show ?thesis by simp
  qed
qed

lemma py_find_first:
  "prefix sub (drop n s) \<Longrightarrow> n \<le> length s \<Longrightarrow> 0 \<le> py_find s sub \<and> py_find s sub \<le> int n"
proof (induction s arbitrary: n)
  case Nil
  then show ?case by auto
next
  case (Cons x xs)
  show ?case
  proof (cases "prefix sub (x # xs)")
    case True
    then show ?thesis by simp
  next
    case False
    with Cons.prems obtain m where m: "n = Suc m" by (cases n) auto
    with Cons.prems Cons.IH[of m] have "0 \<le> py_find xs sub \<and> py_find xs sub \<le> int m" by simp
    with False m show ?thesis by (simp add: Let_def)
  qed
qed

lemma py_index_nat: "py_index s (int a) = min a (length s)"
  by (simp add: py_index_def Let_def min_def)

lemma py_slice_nat: "py_slice s (int a) (int b) = take (b - a) (drop a s)"
  by (auto simp: py_slice_def py_index_nat min_def)

lemma py_slice_from_nat: "py_slice_from s (int a) = drop a s"
  by (auto simp: py_slice_from_def py_index_nat min_def)

lemma py_upper_append: "py_upper U (x @ y) = py_upper U x @ py_upper U y"
  by (simp add: py_upper_def)

lemma mark_lengths: "length STORY_MARK = 6" "length MORAL_MARK = 6"
  by (simp_all add: STORY_MARK_def MORAL_MARK_def cp_def)

lemma py_strip_empty_iff: "py_strip s = [] \<longleftrightarrow> (\<forall>c\<in>set s. is_space c)"
proof
  assume "py_strip s = []"
  then have e: "\<forall>c\<in>set (dropWhile is_space s). is_space c"
    by (simp add: py_strip_def dropWhile_eq_Nil_conv)
  have "dropWhile is_space s = []"
  proof (rule ccontr)
    assume ne: "dropWhile is_space s \<noteq> []"
    then have "\<not> is_space (hd (dropWhile is_space s))" by (rule hd_dropWhile)
    moreover from ne have "hd (dropWhile is_space s) \<in> set (dropWhile is_space s)" by simp
    ultimately show False using e by blast
  qed
  then show "\<forall>c\<in>set s. is_space c" by (simp add: dropWhile_eq_Nil_conv)
next
  assume "\<forall>c\<in>set s. is_space c"
  then have d: "dropWhile is_space s = []" by (simp add: dropWhile_eq_Nil_conv)
  show "py_strip s = []" by (simp only: py_strip_def d rev.simps dropWhile.simps)
qed

lemmas eval_defs =
  split_story_moral_def cp_def py_upper_def upper_cp_def STORY_MARK_def MORAL_MARK_def
  py_slice_def py_slice_from_def py_index_def py_strip_def is_space_def Let_def
  nonempty_lines_def splitlines_def is_linebreak_def

section \<open>The branch with both markers\<close>

text \<open>
  What the marker branch returns, from the two indices found in the uppercased copy:
  nothing ties them to positions of the reply itself.
\<close>

lemma split_marker_branch:
  assumes s: "py_find (py_upper U reply) STORY_MARK = int i"
    and m: "py_find (py_upper U reply) MORAL_MARK = int j"
  shows "split_story_moral U reply =
           (py_strip (take (j - (i + 6)) (drop (i + 6) reply)), py_strip (drop (j + 6) reply))"
proof -
  have "py_in STORY_MARK (py_upper U reply)" "py_in MORAL_MARK (py_upper U reply)"
    using s m by (simp_all flip: py_find_nonneg_iff)
  moreover have "int i + 6 = int (i + 6)" "int j + 6 = int (j + 6)" by simp_all
  ultimately show ?thesis
    unfolding split_story_moral_def Let_def s m mark_lengths
    by (simp only: py_slice_nat py_slice_from_nat if_True simp_thms of_nat_numeral)
qed

text \<open>
  When the indices found are those of two markers of the reply itself, whatever their
  case, the pair is what stands between them and what follows.
\<close>

lemma split_at_markers:
  assumes "length s = 6"
    and "py_find (py_upper U (a @ s @ b @ m @ c)) STORY_MARK = int (length a)"
    and "py_find (py_upper U (a @ s @ b @ m @ c)) MORAL_MARK = int (length a + 6 + length b)"
    and "length m = 6"
  shows "split_story_moral U (a @ s @ b @ m @ c) = (py_strip b, py_strip c)"
  using assms(1,4) by (simp add: split_marker_branch[OF assms(2,3)])

text \<open>
  C5, as amended. Take a reply \<open>a + "story:" + b + "moral:" + c\<close> and the same reply
  with the two markers in capitals. If uppercasing changes the length of neither \<open>a\<close>
  nor \<open>b\<close>, and the two markers written out are the first occurrences of \<open>STORY:\<close>
  and of \<open>MORAL:\<close> in the uppercased reply, then both replies are split into the same
  pair: the trimmed \<open>b\<close> and the trimmed \<open>c\<close>. The table \<open>U\<close> is any one that
  uppercases the two markers as ASCII does.
\<close>

theorem lowercase_markers_parse_alike:
  assumes lower: "py_upper U (cp ''story:'') = STORY_MARK" "py_upper U (cp ''moral:'') = MORAL_MARK"
    and upper: "py_upper U STORY_MARK = STORY_MARK" "py_upper U MORAL_MARK = MORAL_MARK"
    and keep: "length (py_upper U a) = length a" "length (py_upper U b) = length b"
    and first_story:
      "py_find (py_upper U (a @ STORY_MARK @ b @ MORAL_MARK @ c)) STORY_MARK
         = int (length (py_upper U a))"
    and first_moral:
      "py_find (py_upper U (a @ STORY_MARK @ b @ MORAL_MARK @ c)) MORAL_MARK
         = int (length (py_upper U a) + 6 + length (py_upper U b))"
  shows "split_story_moral U (a @ cp ''story:'' @ b @ cp ''moral:'' @ c)
           = split_story_moral U (a @ STORY_MARK @ b @ MORAL_MARK @ c)
         \<and> split_story_moral U (a @ cp ''story:'' @ b @ cp ''moral:'' @ c)
           = (py_strip b, py_strip c)"
proof -
  let ?lo = "a @ cp ''story:'' @ b @ cp ''moral:'' @ c"
  let ?up = "a @ STORY_MARK @ b @ MORAL_MARK @ c"
  have same: "py_upper U ?lo = py_upper U ?up"
    by (simp only: py_upper_append lower upper)
  have l6: "length (cp ''story:'') = 6" "length (cp ''moral:'') = 6"
    by (simp_all add: cp_def)
  have "split_story_moral U ?up = (py_strip b, py_strip c)"
    using first_story first_moral keep
    by (intro split_at_markers) (simp_all add: mark_lengths)
  moreover have "split_story_moral U ?lo = (py_strip b, py_strip c)"
    using first_story first_moral keep l6
    by (intro split_at_markers) (simp_all only: same)
  ultimately show ?thesis by simp
qed

theorem lowercase_markers_parse_alike_witness:
  "split_story_moral upper_cp (cp ''story: A fox ran. moral: Be brave.'')
     = split_story_moral upper_cp (cp ''STORY: A fox ran. MORAL: Be brave.'')
   \<and> split_story_moral upper_cp (cp ''story: A fox ran. moral: Be brave.'')
     = (cp ''A fox ran.'', cp ''Be brave.'')"
proof -
  let ?b = "cp '' A fox ran. ''" and ?c = "cp '' Be brave.''"
  have lower: "py_upper upper_cp (cp ''story:'') = STORY_MARK"
    "py_upper upper_cp (cp ''moral:'') = MORAL_MARK"
    by (simp_all add: cp_def py_upper_def upper_cp_def STORY_MARK_def MORAL_MARK_def)
  have upper: "py_upper upper_cp STORY_MARK = STORY_MARK"
    "py_upper upper_cp MORAL_MARK = MORAL_MARK"
    by (simp_all add: cp_def py_upper_def upper_cp_def STORY_MARK_def MORAL_MARK_def)
  have keep: "length (py_upper upper_cp []) = length ([] :: pystr)"
    "length (py_upper upper_cp ?b) = length ?b"
    by (simp_all add: cp_def py_upper_def upper_cp_def)
  have first_story:
    "py_find (py_upper upper_cp ([] @ STORY_MARK @ ?b @ MORAL_MARK @ ?c)) STORY_MARK
       = int (length (py_upper upper_cp []))"
    by (simp add: cp_def py_upper_def upper_cp_def STORY_MARK_def MORAL_MARK_def)
  have first_moral:
    "py_find (py_upper upper_cp ([] @ STORY_MARK @ ?b @ MORAL_MARK @ ?c)) MORAL_MARK
       = int (length (py_upper upper_cp []) + 6 + length (py_upper upper_cp ?b))"
    by (simp add: cp_def py_upper_def upper_cp_def STORY_MARK_def MORAL_MARK_def)
  have trimmed: "py_strip ?b = cp ''A fox ran.''" "py_strip ?c = cp ''Be brave.''"
    by (simp_all add: cp_def py_strip_def is_space_def)
  have texts:
    "[] @ cp ''story:'' @ ?b @ cp ''moral:'' @ ?c = cp ''story: A fox ran. moral: Be brave.''"
    "[] @ STORY_MARK @ ?b @ MORAL_MARK @ ?c = cp ''STORY: A fox ran. MORAL: Be brave.''"
    by (simp_all add: cp_def STORY_MARK_def MORAL_MARK_def)
  from lowercase_markers_parse_alike[OF lower upper keep first_story first_moral,
      unfolded trimmed texts]
  show ?thesis .
qed

text \<open>
  The claim C5 as it stands fails: only the search ignores case, the text returned keeps
  its own. With \<open>moral:\<close> before \<open>story:\<close> the moral holds the second marker as the
  reply spelt it.
\<close>

theorem lowercase_markers_counterexample:
  "split_story_moral upper_cp (cp ''moral: x story: y'') = ([], cp ''x story: y'')
   \<and> split_story_moral upper_cp (cp ''MORAL: x STORY: y'') = ([], cp ''x STORY: y'')
   \<and> split_story_moral upper_cp (cp ''moral: x story: y'')
       \<noteq> split_story_moral upper_cp (cp ''MORAL: x STORY: y'')"
  by (simp add: eval_defs)

section \<open>The branch without both markers\<close>

lemma splitlines_from_single:
  "\<forall>c\<in>set s. \<not> is_linebreak c \<Longrightarrow>
   splitlines_from cur s = (if cur = [] \<and> s = [] then [] else [rev cur @ s])"
proof (induction cur s rule: splitlines_from.induct)
  case (1 cur)
  show ?case by simp
next
  case (2 cur c)
  then have "\<not> is_linebreak c" by simp
  then show ?case by simp
next
  case (3 cur c d cs)
  from "3.prems" have nl: "\<not> is_linebreak c" and rest: "\<forall>x\<in>set (d # cs). \<not> is_linebreak x"
    by simp_all
  from nl have c13: "\<not> (c = 13 \<and> d = 10)"
    by (auto simp: is_linebreak_def)
  from "3.IH"(3)[OF c13 nl rest]
  have "splitlines_from (c # cur) (d # cs) = [rev (c # cur) @ d # cs]"
    by simp
  with nl c13 show ?case
    by (simp del: splitlines_from.simps add: splitlines_from.simps(3)[of cur c d cs])
qed

lemma single_line_lines:
  assumes "\<forall>c\<in>set reply. \<not> is_linebreak c"
  shows "length (nonempty_lines reply) < 2"
  using splitlines_from_single[OF assms, of "[]"]
  by (simp add: nonempty_lines_def splitlines_def)















text \<open>
  C4. When the uppercased reply lacks one of the markers and the reply has fewer than
  two lines that are not empty once trimmed, the story is the whole reply and the moral
  is empty; a reply without any line boundary is such a reply. The witness has a reply
  of one line and the empty reply.
\<close>

theorem fallback_single_line_is_story:
  assumes "\<not> (py_in STORY_MARK (py_upper U reply) \<and> py_in MORAL_MARK (py_upper U reply))"
  shows "(length (nonempty_lines reply) < 2 \<longrightarrow> split_story_moral U reply = (reply, []))
       \<and> ((\<forall>c\<in>set reply. \<not> is_linebreak c) \<longrightarrow> split_story_moral U reply = (reply, []))"
  using assms single_line_lines[of reply] by (auto simp: split_story_moral_def Let_def)

theorem fallback_single_line_is_story_witness:
  "\<not> (py_in STORY_MARK (py_upper upper_cp (cp ''Only one line.''))
      \<and> py_in MORAL_MARK (py_upper upper_cp (cp ''Only one line.'')))
   \<and> length (nonempty_lines (cp ''Only one line.'')) < 2
   \<and> list_all (\<lambda>c. \<not> is_linebreak c) (cp ''Only one line.'')
   \<and> split_story_moral upper_cp (cp ''Only one line.'') = (cp ''Only one line.'', [])
   \<and> split_story_moral upper_cp [] = ([], [])"
proof -
  let ?t = "cp ''Only one line.''"
  have no: "\<not> (py_in STORY_MARK (py_upper upper_cp ?t) \<and> py_in MORAL_MARK (py_upper upper_cp ?t))"
    by (simp add: cp_def py_upper_def upper_cp_def STORY_MARK_def MORAL_MARK_def)
  have one: "list_all (\<lambda>c. \<not> is_linebreak c) ?t"
    by (simp add: cp_def is_linebreak_def)
  have few: "length (nonempty_lines ?t) < 2"
    by (simp add: cp_def nonempty_lines_def splitlines_def is_linebreak_def py_strip_def
        is_space_def)
  have no0: "\<not> (py_in STORY_MARK (py_upper upper_cp []) \<and> py_in MORAL_MARK (py_upper upper_cp []))"
    by (simp add: cp_def py_upper_def STORY_MARK_def)
  have few0: "length (nonempty_lines []) < 2"
    by (simp add: nonempty_lines_def splitlines_def)
  from fallback_single_line_is_story[OF no] fallback_single_line_is_story[OF no0] no one few few0
  show ?thesis by blast
qed

section \<open>Indices of the uppercased copy used on the reply\<close>

text \<open>
  The reply of the specification's example has no code point that changes length in
  upper case, and is split at its markers.
\<close>

lemma fox_example:
  "split_story_moral upper_cp (cp ''STORY: A fox ran. MORAL: Be brave.'')
     = (cp ''A fox ran.'', cp ''Be brave.'')"
  by (simp add: eval_defs)

lemma length_py_upper_keep:
  "\<forall>c\<in>set s. length (U c) = 1 \<Longrightarrow> length (py_upper U s) = length s"
  by (induction s) (simp_all add: py_upper_def)

lemma py_upper_drop_keep:
  "\<forall>c\<in>set s. length (U c) = 1 \<Longrightarrow> py_upper U (drop n s) = drop n (py_upper U s)"
proof (induction s arbitrary: n)
  case Nil
  then show ?case by (simp add: py_upper_def)
next
  case (Cons c s)
  show ?case
  proof (cases n)
    case 0
    then show ?thesis by simp
  next
    case (Suc m)
    from Cons.prems have one: "length (U c) = 1" and rest: "\<forall>x\<in>set s. length (U x) = 1"
      by simp_all
    have "py_upper U (c # s) = U c @ py_upper U s" by (simp add: py_upper_def)
    with one Suc Cons.IH[OF rest, of m] show ?thesis by simp
  qed
qed

lemma py_upper_take_keep:
  "\<forall>c\<in>set s. length (U c) = 1 \<Longrightarrow> py_upper U (take n s) = take n (py_upper U s)"
proof (induction s arbitrary: n)
  case Nil
  then show ?case by (simp add: py_upper_def)
next
  case (Cons c s)
  show ?case
  proof (cases n)
    case 0
    then show ?thesis by (simp add: py_upper_def)
  next
    case (Suc m)
    from Cons.prems have one: "length (U c) = 1" and rest: "\<forall>x\<in>set s. length (U x) = 1"
      by simp_all
    have "py_upper U (c # s) = U c @ py_upper U s" "py_upper U (c # take m s) = U c @ py_upper U (take m s)"
      by (simp_all add: py_upper_def)
    with one Suc Cons.IH[OF rest, of m] show ?thesis by simp
  qed
qed

lemma marker_in_reply:
  assumes keep: "\<forall>c\<in>set reply. length (U c) = 1"
    and found: "py_find (py_upper U reply) mark = int i"
  shows "py_upper U (take (length mark) (drop i reply)) = mark"
proof -
  have "\<forall>c\<in>set (drop i reply). length (U c) = 1"
    using keep by (auto dest: in_set_dropD)
  then have "py_upper U (take (length mark) (drop i reply))
               = take (length mark) (drop i (py_upper U reply))"
    by (simp add: py_upper_take_keep py_upper_drop_keep[OF keep])
  also from py_find_occurs[OF found] have "\<dots> = mark"
    by (auto simp: prefix_def)
  finally show ?thesis .
qed

text \<open>
  When no code point of the reply changes length in upper case, the indices found in
  the uppercased copy are positions of the reply: the reply has a marker, in some case,
  at each of them, and the pair returned is the trimmed text between the end of the
  first \<open>STORY:\<close> and the start of the first \<open>MORAL:\<close>, and the trimmed text after the
  first \<open>MORAL:\<close>.
\<close>

lemma split_when_upper_keeps_length:
  assumes keep: "\<forall>c\<in>set reply. length (U c) = 1"
    and both: "py_in STORY_MARK (py_upper U reply)" "py_in MORAL_MARK (py_upper U reply)"
  shows "\<exists>i j. py_find (py_upper U reply) STORY_MARK = int i
             \<and> py_find (py_upper U reply) MORAL_MARK = int j
             \<and> py_upper U (take 6 (drop i reply)) = STORY_MARK
             \<and> py_upper U (take 6 (drop j reply)) = MORAL_MARK
             \<and> split_story_moral U reply
                 = (py_strip (take (j - (i + 6)) (drop (i + 6) reply)), py_strip (drop (j + 6) reply))"
proof -
  from both have "0 \<le> py_find (py_upper U reply) STORY_MARK" "0 \<le> py_find (py_upper U reply) MORAL_MARK"
    by (simp_all add: py_find_nonneg_iff)
  then obtain i j where s: "py_find (py_upper U reply) STORY_MARK = int i"
    and m: "py_find (py_upper U reply) MORAL_MARK = int j"
    by (metis nonneg_int_cases)
  from marker_in_reply[OF keep s] marker_in_reply[OF keep m]
  have "py_upper U (take 6 (drop i reply)) = STORY_MARK" "py_upper U (take 6 (drop j reply)) = MORAL_MARK"
    by (simp_all add: mark_lengths)
  with s m split_marker_branch[OF s m] show ?thesis by blast
qed

text \<open>
  C1, at a reply for which the code does not do what the claim says. The reply is
  \<open>STORY: Er sa\<close>, a sharp s (code point 223) and \<open>. MORAL: Mut.\<close>. Its upper case
  has \<open>SS\<close> for the sharp s and is one code point longer, so \<open>MORAL:\<close> is found at
  index 16 while it stands at index 15 of the reply: the story returned ends with the
  \<open>M\<close> of the marker, where the text between the two markers ends with the full stop.
\<close>

theorem sharp_s_shifts_story:
  "py_upper upper_cp (cp ''STORY: Er sa'' @ [223] @ cp ''. MORAL: Mut.'')
     = cp ''STORY: ER SASS. MORAL: MUT.''
   \<and> py_find (py_upper upper_cp (cp ''STORY: Er sa'' @ [223] @ cp ''. MORAL: Mut.'')) STORY_MARK = 0
   \<and> py_find (py_upper upper_cp (cp ''STORY: Er sa'' @ [223] @ cp ''. MORAL: Mut.'')) MORAL_MARK = 16
   \<and> split_story_moral upper_cp (cp ''STORY: Er sa'' @ [223] @ cp ''. MORAL: Mut.'')
       = (cp ''Er sa'' @ [223] @ cp ''. M'', cp ''Mut.'')
   \<and> split_story_moral upper_cp (cp ''STORY: Er sa'' @ [223] @ cp ''. MORAL: Mut.'')
       \<noteq> (cp ''Er sa'' @ [223] @ cp ''.'', cp ''Mut.'')"
  by (simp add: eval_defs)

text \<open>
  When \<open>MORAL:\<close> is found before \<open>STORY:\<close> the slice for the story is empty, and the
  moral starts six places after the index found for \<open>MORAL:\<close>.
\<close>

lemma moral_before_story:
  assumes "py_find (py_upper U reply) STORY_MARK = int i"
    and "py_find (py_upper U reply) MORAL_MARK = int j"
    and "j < i"
  shows "split_story_moral U reply = ([], py_strip (drop (j + 6) reply))"
  using assms(3) by (simp add: split_marker_branch[OF assms(1,2)] py_strip_def)

text \<open>
  C10, at a reply for which the code does not do what the claim says. The reply is
  \<open>Fu\<close>, a sharp s, \<open>, Spa\<close>, a sharp s and \<open>. MORAL: Mut. STORY: Er kam.\<close>, with
  \<open>MORAL:\<close> before \<open>STORY:\<close>. The story is empty, as claimed. The upper case is two
  code points longer, so \<open>MORAL:\<close> is found at index 13 while it stands at index 11 of
  the reply, and the moral returned starts two places too far right: it is
  \<open>ut. STORY: Er kam.\<close>, without the \<open>M\<close> that follows the first \<open>MORAL:\<close> marker.
\<close>

theorem sharp_s_shifts_moral:
  "py_upper upper_cp (cp ''Fu'' @ [223] @ cp '', Spa'' @ [223] @ cp ''. MORAL: Mut. STORY: Er kam.'')
     = cp ''FUSS, SPASS. MORAL: MUT. STORY: ER KAM.''
   \<and> py_find (py_upper upper_cp
         (cp ''Fu'' @ [223] @ cp '', Spa'' @ [223] @ cp ''. MORAL: Mut. STORY: Er kam.'')) MORAL_MARK
       = 13
   \<and> py_find (py_upper upper_cp
         (cp ''Fu'' @ [223] @ cp '', Spa'' @ [223] @ cp ''. MORAL: Mut. STORY: Er kam.'')) STORY_MARK
       = 25
   \<and> split_story_moral upper_cp
         (cp ''Fu'' @ [223] @ cp '', Spa'' @ [223] @ cp ''. MORAL: Mut. STORY: Er kam.'')
       = ([], cp ''ut. STORY: Er kam.'')
   \<and> split_story_moral upper_cp
         (cp ''Fu'' @ [223] @ cp '', Spa'' @ [223] @ cp ''. MORAL: Mut. STORY: Er kam.'')
       \<noteq> ([], cp ''Mut. STORY: Er kam.'')"
  by (simp add: eval_defs)

section \<open>The length hint\<close>

text \<open>
  The claim C2 as it stands fails: a length outside the three tiers gets the hint
  \<open>Keep it short.\<close>, which is not the hint of the tier \<open>Short\<close>.
\<close>

theorem unknown_length_counterexample:
  "cp ''Tiny'' \<notin> {cp ''Short'', cp ''Medium'', cp ''Long''}
   \<and> length_hint (cp ''Tiny'') = cp ''Keep it short.''
   \<and> length_hint (cp ''Short'') = cp ''Keep it very short (3-5 sentences).''
   \<and> length_hint (cp ''Tiny'') \<noteq> length_hint (cp ''Short'')"
  by (simp add: length_hint_def length_hints_def cp_def)

text \<open>
  C2, as amended. For every length that is none of \<open>Short\<close>, \<open>Medium\<close> and
  \<open>Long\<close> the lookup raises nothing and yields the fixed hint \<open>Keep it short.\<close>,
  which differs from the hint of \<open>Short\<close>; with a client, exactly one request is sent,
  its prompt carries that hint, and the result is an error only if the service call
  is one.
\<close>

theorem unknown_length_hint:
  assumes "length_arg \<notin> {cp ''Short'', cp ''Medium'', cp ''Long''}"
  shows "length_hint length_arg = cp ''Keep it short.''
       \<and> length_hint length_arg \<noteq> length_hint (cp ''Short'')
       \<and> generate_story_and_moral U (Some call) dream_text genre length_arg
           = ([\<lparr>model = cp ''gpt-4o-mini'', system_content = story_system,
                user_content = story_prompt dream_text genre (cp ''Keep it short.''),
                temperature = 7 / 10, max_tokens = 550\<rparr>],
              case call \<lparr>model = cp ''gpt-4o-mini'', system_content = story_system,
                         user_content = story_prompt dream_text genre (cp ''Keep it short.''),
                         temperature = 7 / 10, max_tokens = 550\<rparr> of
                Inl e \<Rightarrow> Inl e
              | Inr content \<Rightarrow> Inr (split_story_moral U (py_strip content)))"
proof -
  have h: "length_hint length_arg = cp ''Keep it short.''"
    using assms by (simp add: length_hint_def length_hints_def)
  have s: "length_hint (cp ''Short'') \<noteq> cp ''Keep it short.''"
    by (simp add: length_hint_def length_hints_def cp_def)
  show ?thesis
    using s by (simp add: h generate_story_and_moral_def story_request_def split: sum.split)
qed

theorem unknown_length_hint_witness:
  "cp ''Tiny'' \<notin> {cp ''Short'', cp ''Medium'', cp ''Long''}
   \<and> map user_content (fst (generate_story_and_moral upper_cp
         (Some (\<lambda>r. Inr (cp ''STORY: A fox ran. MORAL: Be brave.'')))
         (cp ''I flew.'') (cp ''Fantasy'') (cp ''Tiny'')))
       = [cp ''User dream: I flew.'' @ [10] @ cp ''Genre: Fantasy'' @ [10] @
          cp ''Length hint: Keep it short.'' @ [10] @
          cp ''Write a short creative story inspired by the dream. Then write a one-sentence moral.'']
   \<and> snd (generate_story_and_moral upper_cp
         (Some (\<lambda>r. Inr (cp ''STORY: A fox ran. MORAL: Be brave.'')))
         (cp ''I flew.'') (cp ''Fantasy'') (cp ''Tiny''))
       = Inr (cp ''A fox ran.'', cp ''Be brave.'')"
proof -
  let ?call = "\<lambda>r :: request. Inr (cp ''STORY: A fox ran. MORAL: Be brave.'') :: py_error + pystr"
  have n: "cp ''Tiny'' \<notin> {cp ''Short'', cp ''Medium'', cp ''Long''}"
    by (simp add: cp_def)
  have g: "generate_story_and_moral upper_cp (Some ?call) (cp ''I flew.'') (cp ''Fantasy'')
             (cp ''Tiny'')
           = ([\<lparr>model = cp ''gpt-4o-mini'', system_content = story_system,
                user_content = story_prompt (cp ''I flew.'') (cp ''Fantasy'') (cp ''Keep it short.''),
                temperature = 7 / 10, max_tokens = 550\<rparr>],
              Inr (split_story_moral upper_cp
                     (py_strip (cp ''STORY: A fox ran. MORAL: Be brave.''))))"
    using unknown_length_hint[OF n, of upper_cp ?call "cp ''I flew.''" "cp ''Fantasy''"]
    by simp
  show ?thesis
    unfolding g using n by (simp add: eval_defs story_prompt_def)
qed

section \<open>Without a client\<close>

text \<open>
  C6. Without a client, and so with no key or an empty key in the environment,
  \<open>generate_story_and_moral\<close> returns the pair \<open>("(API key missing)", "")\<close> and sends
  no request, for every dream text, genre and length.
\<close>

theorem no_client_no_story:
  "generate_story_and_moral U None dream_text genre length_arg
     = ([], Inr (cp ''(API key missing)'', []))
   \<and> generate_story_and_moral U (init_client None connect) dream_text genre length_arg
     = ([], Inr (cp ''(API key missing)'', []))
   \<and> generate_story_and_moral U (init_client (Some []) connect) dream_text genre length_arg
     = ([], Inr (cp ''(API key missing)'', []))"
  by (simp add: generate_story_and_moral_def init_client_def)

text \<open>
  C7. Without a client \<open>analyze_mood\<close> returns the fixed label
  \<open>Unknown (no API key)\<close> and sends no request, for every dream text.
\<close>

theorem no_client_no_mood:
  "analyze_mood None dream_text = ([], Inr (cp ''Unknown (no API key)''))
   \<and> analyze_mood (init_client None connect) dream_text = ([], Inr (cp ''Unknown (no API key)''))
   \<and> analyze_mood (init_client (Some []) connect) dream_text
       = ([], Inr (cp ''Unknown (no API key)''))"
  by (simp add: analyze_mood_def init_client_def)

section \<open>Submitting a blank dream\<close>

text \<open>
  C8. A dream text that is empty or all white space is answered by the warning alone:
  no request is sent, whatever the client, and the disk is left as it was.
\<close>

theorem blank_dream_rejected:
  assumes "\<forall>c\<in>set dream_input. is_space c"
  shows "on_submit U sha1 client d dream_input genre length_arg
           = \<lparr>shown = [Warning (cp ''Please enter a dream description before clicking Create Story.'')],
              sent = [], disk_after = d, raised = None\<rparr>"
  using assms by (simp add: on_submit_def py_strip_empty_iff)

theorem blank_dream_rejected_witness:
  "\<forall>sha1.
     list_all is_space [32, 9, 10, 32]
     \<and> on_submit upper_cp sha1 (Some (\<lambda>r. Inr (cp ''Happy'')))
          \<lparr>dirs = {}, files = Map.empty, read_only = False\<rparr> [32, 9, 10, 32]
          (cp ''Fantasy'') (cp ''Medium'')
         = \<lparr>shown = [Warning (cp ''Please enter a dream description before clicking Create Story.'')],
            sent = [], disk_after = \<lparr>dirs = {}, files = Map.empty, read_only = False\<rparr>,
            raised = None\<rparr>"
proof -
  have sp: "\<forall>c\<in>set [32, 9, 10, 32]. is_space c"
    by (simp add: is_space_def)
  from blank_dream_rejected[OF sp] sp show ?thesis
    by (simp add: list_all_iff)
qed

section \<open>The name of the saved file\<close>














end
